theory Spec2Isabelle
  imports Complex_Main
begin

section \<open>Values of the betting backend\<close>

text \<open>
  The program is a FastAPI service over a MongoDB document store (\<^verbatim>\<open>src/main.py\<close>,
  \<^verbatim>\<open>src/schemas.py\<close>). Its handlers are embedded as functions that take the store and
  return the store after the request together with either the error raised or the
  response returned.

  Python floats are not given a representation here: the float type is the type
  parameter \<open>'f\<close>, and the float operations the handlers use (product, \<^verbatim>\<open>round(x, 2)\<close>,
  the conversion \<^verbatim>\<open>float(v)\<close>, the literals \<^verbatim>\<open>0.0\<close> and \<^verbatim>\<open>1.0\<close>) are fields of an
  environment record, so that every theorem holds for whatever these operations are.
  The same record carries \<^verbatim>\<open>ObjectId(id_str)\<close> and \<^verbatim>\<open>str(ObjectId)\<close> of the bson
  library, which is not part of the repository.
\<close>

type_synonym time = nat
type_synonym objid = nat

text \<open>A JSON value as the request parser hands it to the handler (\<^verbatim>\<open>outcomes: List[dict]\<close>).
  A dict keeps its entries in order; a lookup finds the first entry of the key.\<close>

datatype 'f jval =
    JNull
  | JBool bool
  | JInt int
  | JFloat 'f
  | JStr string
  | JList "'f jval list"
  | JDict "(string \<times> 'f jval) list"

type_synonym 'f jdict = "(string \<times> 'f jval) list"

text \<open>Python exceptions that no handler catches, and the errors of the service. A
  handler raises \<^verbatim>\<open>HTTPException(status_code, detail)\<close>; the constructors name the
  error kinds:
  \<^item> \<open>InvalidIdFormat\<close>: 400, "Invalid ID format" (\<^verbatim>\<open>oid\<close>);
  \<^item> \<open>InvalidGameType\<close>: 400, "Invalid game_type";
  \<^item> \<open>EmptyOutcomes\<close>: 400, "Outcomes required";
  \<^item> \<open>IncompleteOutcome\<close>: 400, "Each outcome needs key, label, odds";
  \<^item> \<open>MarketNotFound\<close>: 404, "Market not found";
  \<^item> \<open>MarketNotOpen\<close>: 400, "Market is not open" (placement) and
    "Market must be open to settle" (settlement);
  \<^item> \<open>InvalidOutcome\<close>: 400, "Invalid outcome";
  \<^item> \<open>UserNotFound\<close>: 404, "User not found";
  \<^item> \<open>InvalidStake\<close>: named by the error taxonomy, raised nowhere in the source;
  \<^item> \<open>Unhandled\<close>: a Python exception that escapes the handler.\<close>

datatype py_exception = TypeError | ValueError | OverflowError

datatype error =
    InvalidIdFormat
  | InvalidGameType
  | EmptyOutcomes
  | IncompleteOutcome
  | InvalidStake
  | MarketNotFound
  | MarketNotOpen
  | InvalidOutcome
  | UserNotFound
  | Unhandled py_exception

datatype response = Id string | StatusOk

record 'f env =
  parse_oid :: "string \<Rightarrow> objid option"
  show_oid :: "objid \<Rightarrow> string"
  float_of_int :: "int \<Rightarrow> 'f option"
  float_of_str :: "string \<Rightarrow> 'f option"
  fmul :: "'f \<Rightarrow> 'f \<Rightarrow> 'f"
  round2 :: "'f \<Rightarrow> 'f"
  fzero :: "'f"
  fone :: "'f"

text \<open>The clock: \<open>clk n\<close> is the value of the \<open>n\<close>-th call of
  \<^verbatim>\<open>datetime.now(timezone.utc)\<close> within one request.\<close>

type_synonym clock = "nat \<Rightarrow> time"

subsection \<open>Request payloads\<close>

record CreateUser =
  username :: string
  email :: "string option"

record 'f CreateMarket =
  game_type :: string
  title :: string
  outcomes :: "'f jdict list"
  start_time :: "time option"

record 'f PlaceBet =
  user_id :: string
  market_id :: string
  outcome_key :: string
  stake :: 'f

record SettlePayload =
  settled_outcome_key :: string

subsection \<open>Stored documents\<close>

text \<open>The documents are Python dicts whose keys are fixed by the handler that inserts
  them; each is a record of those keys. A key that only a later \<^verbatim>\<open>$set\<close> adds is an
  option, \<open>None\<close> while it is absent.\<close>

record 'f user =
  username :: string
  email :: "string option"
  created_at :: time
  is_active :: bool
  balance :: 'f

record 'f market =
  game_type :: string
  title :: string
  outcomes :: "'f jdict list"
  status :: string
  start_time :: "time option"
  created_at :: time
  settled_outcome_key :: "string option"
  settled_at :: "time option"

record 'f bet =
  user_id :: string
  market_id :: string
  outcome_key :: string
  stake :: 'f
  odds :: 'f
  potential_payout :: 'f
  status :: string
  placed_at :: time
  updated_at :: "time option"

text \<open>The database: the collections \<^verbatim>\<open>db["user"]\<close>, \<^verbatim>\<open>db["market"]\<close> and
  \<^verbatim>\<open>db["bet"]\<close>, each in insertion order. Nothing is ever deleted, so the \<^verbatim>\<open>_id\<close> of a
  document is modelled as its position in its collection.\<close>

record 'f db =
  coll_user :: "'f user list"
  coll_market :: "'f market list"
  coll_bet :: "'f bet list"

section \<open>The store\<close>

text \<open>Modelled from the spec: \<^verbatim>\<open>database.py\<close> (\<^verbatim>\<open>create_document\<close>, \<^verbatim>\<open>db\<close>) is not among
  the sources. The spec gives the collaborator as \<^verbatim>\<open>insert(kind, doc) -> id\<close>,
  \<^verbatim>\<open>findOne(kind, filter) -> doc?\<close>, \<^verbatim>\<open>findMany(kind, filter, limit)\<close> and
  \<^verbatim>\<open>updateOne(kind, filter, changes)\<close>.\<close>

definition create_document :: "'d list \<Rightarrow> 'd \<Rightarrow> objid \<times> 'd list" where
  "create_document coll doc = (length coll, coll @ [doc])"

definition find_one :: "'d list \<Rightarrow> objid \<Rightarrow> 'd option" where
  "find_one coll i = (if i < length coll then Some (coll ! i) else None)"

definition find_many :: "'d list \<Rightarrow> ('d \<Rightarrow> bool) \<Rightarrow> (objid \<times> 'd) list" where
  "find_many coll filt = filter (\<lambda>(i, d). filt d) (enumerate 0 coll)"

definition update_one :: "objid \<Rightarrow> ('d \<Rightarrow> 'd) \<Rightarrow> 'd list \<Rightarrow> 'd list" where
  "update_one i changes coll = (if i < length coll then coll[i := changes (coll ! i)] else coll)"

section \<open>Helpers\<close>

definition oid :: "'f env \<Rightarrow> string \<Rightarrow> error + objid" where
  "oid E id_str = (case parse_oid E id_str of None \<Rightarrow> Inl InvalidIdFormat | Some i \<Rightarrow> Inr i)"

definition dict_get :: "'f jdict \<Rightarrow> string \<Rightarrow> 'f jval \<Rightarrow> 'f jval" where
  "dict_get d k dflt = (case map_of d k of None \<Rightarrow> dflt | Some v \<Rightarrow> v)"

text \<open>\<^verbatim>\<open>float(v)\<close>: a bool or an int converts (an int too large raises OverflowError), a
  string is parsed (ValueError when it is no number), None, a list and a dict raise
  TypeError.\<close>

fun py_float :: "'f env \<Rightarrow> 'f jval \<Rightarrow> py_exception + 'f" where
  "py_float E JNull = Inl TypeError"
| "py_float E (JBool b) =
     (case float_of_int E (if b then 1 else 0) of None \<Rightarrow> Inl OverflowError | Some x \<Rightarrow> Inr x)"
| "py_float E (JInt i) =
     (case float_of_int E i of None \<Rightarrow> Inl OverflowError | Some x \<Rightarrow> Inr x)"
| "py_float E (JFloat x) = Inr x"
| "py_float E (JStr s) =
     (case float_of_str E s of None \<Rightarrow> Inl ValueError | Some x \<Rightarrow> Inr x)"
| "py_float E (JList _) = Inl TypeError"
| "py_float E (JDict _) = Inl TypeError"

section \<open>Users\<close>

definition create_user :: "'f env \<Rightarrow> clock \<Rightarrow> 'f db \<Rightarrow> CreateUser \<Rightarrow> 'f db \<times> (error + response)" where
  "create_user E clk db payload =
     (let doc = \<lparr> user.username = CreateUser.username payload,
                  user.email = CreateUser.email payload,
                  user.created_at = clk 0,
                  is_active = True,
                  balance = fzero E \<rparr>;
          (new_id, coll) = create_document (coll_user db) doc
      in (db\<lparr>coll_user := coll\<rparr>, Inr (Id (show_oid E new_id))))"

section \<open>Markets\<close>

definition create_market :: "'f env \<Rightarrow> clock \<Rightarrow> 'f db \<Rightarrow> 'f CreateMarket \<Rightarrow> 'f db \<times> (error + response)" where
  "create_market E clk db payload =
     (if CreateMarket.game_type payload \<notin> {''cricket'', ''matka'', ''other''}
      then (db, Inl InvalidGameType)
      else if CreateMarket.outcomes payload = []
      then (db, Inl EmptyOutcomes)
      else if list_ex (\<lambda>oc. \<not> {''key'', ''label'', ''odds''} \<subseteq> fst ` set oc)
                      (CreateMarket.outcomes payload)
      then (db, Inl IncompleteOutcome)
      else
        let doc = \<lparr> market.game_type = CreateMarket.game_type payload,
                    market.title = CreateMarket.title payload,
                    market.outcomes = CreateMarket.outcomes payload,
                    market.status = ''open'',
                    market.start_time = CreateMarket.start_time payload,
                    market.created_at = clk 0,
                    settled_outcome_key = None,
                    settled_at = None \<rparr>;
            (new_id, coll) = create_document (coll_market db) doc
        in (db\<lparr>coll_market := coll\<rparr>, Inr (Id (show_oid E new_id))))"

section \<open>Betting\<close>

definition place_bet :: "'f env \<Rightarrow> clock \<Rightarrow> 'f db \<Rightarrow> 'f PlaceBet \<Rightarrow> 'f db \<times> (error + response)" where
  "place_bet E clk db payload =
     (case oid E (PlaceBet.market_id payload) of
        Inl e \<Rightarrow> (db, Inl e)
      | Inr mid \<Rightarrow>
     (case find_one (coll_market db) mid of
        None \<Rightarrow> (db, Inl MarketNotFound)
      | Some market \<Rightarrow>
     if market.status market \<noteq> ''open'' then (db, Inl MarketNotOpen)
     else
     (case find (\<lambda>oc. dict_get oc ''key'' JNull = JStr (PlaceBet.outcome_key payload))
                (market.outcomes market) of
        None \<Rightarrow> (db, Inl InvalidOutcome)
      | Some outcome \<Rightarrow>
     if outcome = [] then (db, Inl InvalidOutcome)
     else
     (case oid E (PlaceBet.user_id payload) of
        Inl e \<Rightarrow> (db, Inl e)
      | Inr uid \<Rightarrow>
     (case find_one (coll_user db) uid of
        None \<Rightarrow> (db, Inl UserNotFound)
      | Some user \<Rightarrow>
     (case py_float E (dict_get outcome ''odds'' (JFloat (fone E))) of
        Inl ex \<Rightarrow> (db, Inl (Unhandled ex))
      | Inr x \<Rightarrow>
     let potential = round2 E (fmul E (PlaceBet.stake payload) x) in
     (case py_float E (dict_get outcome ''odds'' JNull) of
        Inl ex \<Rightarrow> (db, Inl (Unhandled ex))
      | Inr snapshot \<Rightarrow>
     let doc = \<lparr> bet.user_id = PlaceBet.user_id payload,
                 bet.market_id = PlaceBet.market_id payload,
                 bet.outcome_key = PlaceBet.outcome_key payload,
                 bet.stake = PlaceBet.stake payload,
                 odds = snapshot,
                 potential_payout = potential,
                 bet.status = ''pending'',
                 placed_at = clk 0,
                 updated_at = None \<rparr>;
         (new_id, coll) = create_document (coll_bet db) doc
     in (db\<lparr>coll_bet := coll\<rparr>, Inr (Id (show_oid E new_id))))))))))"

section \<open>Settlement\<close>

text \<open>The loop over the bets found for the market. \<open>n\<close> counts the clock readings
  taken so far in the request.\<close>

fun settle_bets :: "clock \<Rightarrow> nat \<Rightarrow> string \<Rightarrow> (objid \<times> 'f bet) list \<Rightarrow> 'f bet list \<Rightarrow> 'f bet list" where
  "settle_bets clk n winning_key [] coll = coll"
| "settle_bets clk n winning_key ((b_id, b) # bets) coll =
     (let new_status = (if bet.outcome_key b = winning_key then ''won'' else ''lost'')
      in settle_bets clk (Suc n) winning_key bets
           (update_one b_id (\<lambda>d. d\<lparr>bet.status := new_status, updated_at := Some (clk n)\<rparr>) coll))"

definition settle_market ::
    "'f env \<Rightarrow> clock \<Rightarrow> 'f db \<Rightarrow> string \<Rightarrow> SettlePayload \<Rightarrow> 'f db \<times> (error + response)" where
  "settle_market E clk db market_id' payload =
     (case oid E market_id' of
        Inl e \<Rightarrow> (db, Inl e)
      | Inr mid \<Rightarrow>
     (case find_one (coll_market db) mid of
        None \<Rightarrow> (db, Inl MarketNotFound)
      | Some market \<Rightarrow>
     if market.status market \<noteq> ''open'' then (db, Inl MarketNotOpen)
     else
     let db1 = db\<lparr>coll_market :=
                 update_one mid
                   (\<lambda>m. m\<lparr>market.status := ''settled'',
                           settled_outcome_key := Some (SettlePayload.settled_outcome_key payload),
                           settled_at := Some (clk 0)\<rparr>)
                   (coll_market db)\<rparr>;
         winning_key = SettlePayload.settled_outcome_key payload;
         bets = find_many (coll_bet db1) (\<lambda>b. bet.market_id b = market_id')
     in (db1\<lparr>coll_bet := settle_bets clk 1 winning_key bets (coll_bet db1)\<rparr>, Inr StatusOk)))"

section \<open>Requests and reachable stores\<close>

text \<open>The requests that write to the store, and the store after a request. The two
  listing endpoints only read (they rename \<^verbatim>\<open>_id\<close> in the copies they return) and are
  left out.\<close>

datatype 'f request =
    ReqCreateUser CreateUser
  | ReqCreateMarket "'f CreateMarket"
  | ReqPlaceBet "'f PlaceBet"
  | ReqSettleMarket string SettlePayload

fun handle :: "'f env \<Rightarrow> clock \<Rightarrow> 'f db \<Rightarrow> 'f request \<Rightarrow> 'f db \<times> (error + response)" where
  "handle E clk db (ReqCreateUser payload) = create_user E clk db payload"
| "handle E clk db (ReqCreateMarket payload) = create_market E clk db payload"
| "handle E clk db (ReqPlaceBet payload) = place_bet E clk db payload"
| "handle E clk db (ReqSettleMarket market_id' payload) = settle_market E clk db market_id' payload"

definition empty_db :: "'f db" where
  "empty_db = \<lparr> coll_user = [], coll_market = [], coll_bet = [] \<rparr>"

fun run :: "'f env \<Rightarrow> 'f db \<Rightarrow> (clock \<times> 'f request) list \<Rightarrow> 'f db" where
  "run E db [] = db"
| "run E db ((clk, req) # reqs) = run E (fst (handle E clk db req)) reqs"

inductive reachable :: "'f env \<Rightarrow> 'f db \<Rightarrow> bool" for E :: "'f env" where
  reachable_empty: "reachable E empty_db"
| reachable_handle: "reachable E db \<Longrightarrow> reachable E (fst (handle E clk db req))"

text \<open>An outcome dict carries the three keys that creation asks for; the keys of a
  list of outcomes; a key that names an outcome as \<^verbatim>\<open>place_bet\<close> looks it up.\<close>

definition well_formed_outcome :: "'f jdict \<Rightarrow> bool" where
  "well_formed_outcome oc \<longleftrightarrow> {''key'', ''label'', ''odds''} \<subseteq> fst ` set oc"

definition outcome_keys :: "'f jdict list \<Rightarrow> 'f jval list" where
  "outcome_keys ocs = map (\<lambda>oc. dict_get oc ''key'' JNull) ocs"

definition matches_outcome :: "'f jdict list \<Rightarrow> string \<Rightarrow> bool" where
  "matches_outcome ocs k \<longleftrightarrow> list_ex (\<lambda>oc. dict_get oc ''key'' JNull = JStr k) ocs"

text \<open>A bet names a market of the store and one of its outcomes; every stored bet
  does.\<close>

definition bet_refers :: "'f env \<Rightarrow> 'f market list \<Rightarrow> 'f bet \<Rightarrow> bool" where
  "bet_refers E ms b \<longleftrightarrow>
     (case oid E (bet.market_id b) of
        Inl e \<Rightarrow> False
      | Inr i \<Rightarrow> (case find_one ms i of
                   None \<Rightarrow> False
                 | Some m \<Rightarrow> matches_outcome (market.outcomes m) (bet.outcome_key b)))"

definition bets_refer :: "'f env \<Rightarrow> 'f db \<Rightarrow> bool" where
  "bets_refer E db \<longleftrightarrow> list_all (bet_refers E (coll_market db)) (coll_bet db)"

section \<open>An environment for examples\<close>

text \<open>Exact rational arithmetic stands in for the floats, rounding to the nearest
  hundredth; three ids are known, and each names the document at its position in
  whichever collection it is looked up in. No string is read as a number: the examples
  give odds as numbers or as \<^verbatim>\<open>null\<close>.\<close>

definition id0 :: string where
  "id0 = ''000000000000000000000000''"

definition id1 :: string where
  "id1 = ''000000000000000000000001''"

definition id2 :: string where
  "id2 = ''000000000000000000000002''"

definition example_env :: "rat env" where
  "example_env =
     \<lparr> parse_oid = (\<lambda>s. if s = id0 then Some 0 else if s = id1 then Some 1
                         else if s = id2 then Some 2 else None),
       show_oid = (\<lambda>i. if i = 0 then id0 else if i = 1 then id1 else id2),
       float_of_int = (\<lambda>i. Some (of_int i)),
       float_of_str = (\<lambda>s. None),
       fmul = (\<lambda>x y. x * y),
       round2 = (\<lambda>x. of_int (round (x * 100)) / 100),
       fzero = 0,
       fone = 1 \<rparr>"

definition example_clock :: clock where
  "example_clock n = 1000 + n"

definition alice :: CreateUser where
  "alice = \<lparr> CreateUser.username = ''alice'', CreateUser.email = None \<rparr>"

definition a_vs_b :: "rat CreateMarket" where
  "a_vs_b =
     \<lparr> CreateMarket.game_type = ''cricket'',
       CreateMarket.title = ''A vs B'',
       CreateMarket.outcomes =
         [[(''key'', JStr ''A''), (''label'', JStr ''Team A''), (''odds'', JFloat (9 / 5))],
          [(''key'', JStr ''B''), (''label'', JStr ''Team B''), (''odds'', JFloat 2)]],
       CreateMarket.start_time = None \<rparr>"

definition bet_on :: "string \<Rightarrow> rat \<Rightarrow> rat PlaceBet" where
  "bet_on k s =
     \<lparr> PlaceBet.user_id = id0, PlaceBet.market_id = id0,
       PlaceBet.outcome_key = k, PlaceBet.stake = s \<rparr>"

definition settle_with :: "string \<Rightarrow> SettlePayload" where
  "settle_with k = \<lparr> SettlePayload.settled_outcome_key = k \<rparr>"

text \<open>The store after a user and the market were created and two bets placed.\<close>

definition example_db :: "rat db" where
  "example_db =
     run example_env empty_db
       [(example_clock, ReqCreateUser alice),
        (example_clock, ReqCreateMarket a_vs_b),
        (example_clock, ReqPlaceBet (bet_on ''A'' 100)),
        (example_clock, ReqPlaceBet (bet_on ''B'' 50))]"

text \<open>Three more creation payloads: two outcomes under one key; an outcome with odds
  one half; an outcome whose odds is \<^verbatim>\<open>null\<close>.\<close>

definition same_key_twice :: "rat CreateMarket" where
  "same_key_twice =
     \<lparr> CreateMarket.game_type = ''matka'',
       CreateMarket.title = ''Draw'',
       CreateMarket.outcomes =
         [[(''key'', JStr ''A''), (''label'', JStr ''First''), (''odds'', JFloat 2)],
          [(''key'', JStr ''A''), (''label'', JStr ''Second''), (''odds'', JFloat 3)]],
       CreateMarket.start_time = None \<rparr>"

definition low_odds :: "rat CreateMarket" where
  "low_odds =
     \<lparr> CreateMarket.game_type = ''cricket'',
       CreateMarket.title = ''A vs B'',
       CreateMarket.outcomes =
         [[(''key'', JStr ''A''), (''label'', JStr ''Team A''), (''odds'', JFloat (1 / 2))]],
       CreateMarket.start_time = None \<rparr>"

definition null_odds :: "rat CreateMarket" where
  "null_odds =
     \<lparr> CreateMarket.game_type = ''other'',
       CreateMarket.title = ''A vs B'',
       CreateMarket.outcomes =
         [[(''key'', JStr ''A''), (''label'', JStr ''Team A''), (''odds'', JNull)]],
       CreateMarket.start_time = None \<rparr>"

definition one_user_db :: "rat db" where
  "one_user_db = run example_env empty_db [(example_clock, ReqCreateUser alice)]"

text \<open>The example store after the market was settled with outcome A.\<close>

definition settled_db :: "rat db" where
  "settled_db = fst (settle_market example_env example_clock example_db id0 (settle_with ''A''))"


section \<open>An environment with two spellings of an id\<close>

text \<open>\<^verbatim>\<open>ObjectId(id_str)\<close> reads a hex digit in either case, and \<^verbatim>\<open>str\<close> of an ObjectId
  writes lower case. In this environment the id of the first document of a collection
  ends in the digit a, and the id of the second in b: both spellings of each are
  accepted, the lower-case one is returned. Everything else is as in the example
  environment.\<close>

definition ida :: string where
  "ida = ''00000000000000000000000a''"

definition idA :: string where
  "idA = ''00000000000000000000000A''"

definition idb :: string where
  "idb = ''00000000000000000000000b''"

definition idB :: string where
  "idB = ''00000000000000000000000B''"

definition hex_env :: "rat env" where
  "hex_env =
     example_env
       \<lparr> parse_oid := (\<lambda>s. if s = ida \<or> s = idA then Some 0
                            else if s = idb \<or> s = idB then Some 1 else None),
         show_oid := (\<lambda>i. if i = 0 then ida else idb) \<rparr>"

definition bet_under :: "string \<Rightarrow> string \<Rightarrow> rat \<Rightarrow> rat PlaceBet" where
  "bet_under m k s =
     \<lparr> PlaceBet.user_id = ida, PlaceBet.market_id = m,
       PlaceBet.outcome_key = k, PlaceBet.stake = s \<rparr>"

text \<open>The store after a user and the market were created, and then: two bets placed
  under the id that creation returned; one bet placed under the upper-case spelling
  of that id.\<close>

definition lower_case_db :: "rat db" where
  "lower_case_db =
     run hex_env empty_db
       [(example_clock, ReqCreateUser alice),
        (example_clock, ReqCreateMarket a_vs_b),
        (example_clock, ReqPlaceBet (bet_under ida ''A'' 100)),
        (example_clock, ReqPlaceBet (bet_under ida ''B'' 50))]"

definition upper_case_db :: "rat db" where
  "upper_case_db =
     run hex_env empty_db
       [(example_clock, ReqCreateUser alice),
        (example_clock, ReqCreateMarket a_vs_b),
        (example_clock, ReqPlaceBet (bet_under idA ''A'' 100))]"

section \<open>Facts about the store\<close>


lemma length_update_one: "length (update_one i f coll) = length coll"
  by (simp add: update_one_def)

lemma nth_update_one:
  "j < length coll \<Longrightarrow> update_one i f coll ! j = (if j = i then f (coll ! j) else coll ! j)"
  by (simp add: update_one_def)

lemma find_one_update_one:
  "find_one (update_one i f coll) j =
     (if j = i then map_option f (find_one coll j) else find_one coll j)"
  by (simp add: find_one_def update_one_def)

lemma find_one_append:
  "find_one (coll @ [d]) j =
     (if j < length coll then Some (coll ! j) else if j = length coll then Some d else None)"
  by (simp add: find_one_def nth_append)

lemma find_one_Some_iff: "find_one coll j = Some d \<longleftrightarrow> j < length coll \<and> coll ! j = d"
  by (auto simp: find_one_def)

lemma length_settle_bets: "length (settle_bets clk n k bs coll) = length coll"
  by (induction bs arbitrary: n coll) (auto simp: length_update_one Let_def)

lemma settle_bets_miss:
  "i \<notin> fst ` set bs \<Longrightarrow> settle_bets clk n k bs coll ! i = coll ! i"
proof (induction bs arbitrary: n coll)
  case Nil
  show ?case by simp
next
  case (Cons p bs)
  obtain j b where p: "p = (j, b)" by (cases p)
  from Cons.prems p have ne: "i \<noteq> j" and rest: "i \<notin> fst ` set bs" by auto
  show ?case
    using Cons.IH [OF rest] ne
    by (simp add: p Let_def update_one_def)
qed

lemma settle_bets_hit:
  "distinct (map fst bs) \<Longrightarrow> (i, b) \<in> set bs \<Longrightarrow> i < length coll \<Longrightarrow>
   \<exists>t. settle_bets clk n k bs coll ! i =
        (coll ! i)\<lparr>bet.status := (if bet.outcome_key b = k then ''won'' else ''lost''),
                  updated_at := Some t\<rparr>"
proof (induction bs arbitrary: n coll)
  case Nil
  then show ?case by simp
next
  case (Cons p bs)
  obtain j c where p: "p = (j, c)" by (cases p)
  show ?case
  proof (cases "(i, b) = (j, c)")
    case True
    with Cons.prems p have "i \<notin> fst ` set bs" by auto
    then have "settle_bets clk (Suc n) k bs
                 (update_one j (\<lambda>d. d\<lparr>bet.status := (if bet.outcome_key c = k then ''won'' else ''lost''),
                                       updated_at := Some (clk n)\<rparr>) coll) ! i
               = update_one j (\<lambda>d. d\<lparr>bet.status := (if bet.outcome_key c = k then ''won'' else ''lost''),
                                       updated_at := Some (clk n)\<rparr>) coll ! i"
      by (rule settle_bets_miss)
    with True Cons.prems(3) show ?thesis
      by (auto simp: p Let_def nth_update_one)
  next
    case False
    with Cons.prems p have mem: "(i, b) \<in> set bs" and d: "distinct (map fst bs)" and ne: "i \<noteq> j"
      by (auto simp: image_iff)
    from Cons.prems(3) have len: "i < length (update_one j (\<lambda>d. d\<lparr>bet.status := (if bet.outcome_key c = k then ''won'' else ''lost''),
                                       updated_at := Some (clk n)\<rparr>) coll)"
      by (simp add: length_update_one)
    from Cons.IH [OF d mem len, of "Suc n"] ne Cons.prems(3) show ?thesis
      by (simp add: p Let_def nth_update_one)
  qed
qed

lemma distinct_find_many: "distinct (map fst (find_many coll filt))"
  by (simp add: find_many_def distinct_map_filter)

lemma in_find_many:
  "(i, b) \<in> set (find_many coll filt) \<longleftrightarrow> i < length coll \<and> coll ! i = b \<and> filt b"
  by (auto simp: find_many_def in_set_enumerate_eq)

lemma settle_market_open:
  assumes "oid E mid = Inr i" and "find_one (coll_market db) i = Some m"
    and "market.status m = ''open''"
  shows "settle_market E clk db mid p =
     (db\<lparr>coll_market :=
           update_one i (\<lambda>m. m\<lparr>market.status := ''settled'',
                                settled_outcome_key := Some (SettlePayload.settled_outcome_key p),
                                settled_at := Some (clk 0)\<rparr>) (coll_market db),
         coll_bet :=
           settle_bets clk 1 (SettlePayload.settled_outcome_key p)
             (find_many (coll_bet db) (\<lambda>b. bet.market_id b = mid)) (coll_bet db)\<rparr>,
      Inr StatusOk)"
  using assms by (simp add: settle_market_def Let_def)

text \<open>What settlement does, bet by bet. The bets are selected by comparing the stored
  \<^verbatim>\<open>market_id\<close> string with the id string of the request: a bet stored under that
  string gets "won" or "lost" by its \<^verbatim>\<open>outcome_key\<close>; a bet stored under any other
  string is left as it was, also when that string is another spelling of the same
  ObjectId.\<close>

lemma settle_market_same_string:
  assumes "oid E mid = Inr i" and "find_one (coll_market db) i = Some m"
    and "market.status m = ''open''"
    and "find_one (coll_bet db) j = Some b"
  shows "\<exists>b'. find_one (coll_bet (fst (settle_market E clk db mid p))) j = Some b' \<and>
     (bet.market_id b = mid \<and> bet.outcome_key b = SettlePayload.settled_outcome_key p
        \<longrightarrow> bet.status b' = ''won'') \<and>
     (bet.market_id b = mid \<and> bet.outcome_key b \<noteq> SettlePayload.settled_outcome_key p
        \<longrightarrow> bet.status b' = ''lost'') \<and>
     (bet.market_id b \<noteq> mid \<longrightarrow> b' = b)"
proof -
  let ?k = "SettlePayload.settled_outcome_key p"
  let ?bs = "find_many (coll_bet db) (\<lambda>b. bet.market_id b = mid)"
  let ?coll = "settle_bets clk 1 ?k ?bs (coll_bet db)"
  from assms(4) have j: "j < length (coll_bet db)" and b: "coll_bet db ! j = b"
    by (simp_all add: find_one_Some_iff)
  have db': "coll_bet (fst (settle_market E clk db mid p)) = ?coll"
    by (simp add: settle_market_open [OF assms(1-3)])
  have found: "find_one ?coll j = Some (?coll ! j)"
    using j by (simp add: find_one_def length_settle_bets)
  have hit: "bet.status (?coll ! j) = (if bet.outcome_key b = ?k then ''won'' else ''lost'')"
    if "bet.market_id b = mid"
  proof -
    from that j b have "(j, b) \<in> set ?bs" by (simp add: in_find_many)
    from settle_bets_hit [OF distinct_find_many this j, of clk 1 ?k]
    show ?thesis by auto
  qed
  have miss: "?coll ! j = b" if "bet.market_id b \<noteq> mid"
  proof -
    from that b have "j \<notin> fst ` set ?bs" by (auto simp: in_find_many)
    then show ?thesis using b by (simp add: settle_bets_miss)
  qed
  show ?thesis
    unfolding db' using found hit miss by auto
qed

text \<open>C2. A settlement request on a market whose status is not "open" (a settled one
  in particular) fails with \<open>MarketNotOpen\<close> and the store after the request is the store
  before it: neither the market nor any bet is written.\<close>

theorem settle_market_not_open:
  assumes "oid E mid = Inr i" and "find_one (coll_market db) i = Some m"
    and "market.status m \<noteq> ''open''"
  shows "settle_market E clk db mid p = (db, Inl MarketNotOpen)"
  using assms by (simp add: settle_market_def)

text \<open>C4. Placing a bet on an existing market whose status is not "open" fails with
  \<open>MarketNotOpen\<close> and writes nothing, whatever the outcome key, the user and the stake of
  the request are.\<close>

theorem place_bet_not_open:
  assumes "oid E (PlaceBet.market_id p) = Inr i" and "find_one (coll_market db) i = Some m"
    and "market.status m \<noteq> ''open''"
  shows "place_bet E clk db p = (db, Inl MarketNotOpen)"
  using assms by (simp add: place_bet_def)


lemmas example_defs =
  example_env_def example_clock_def alice_def a_vs_b_def bet_on_def settle_with_def
  id0_def id1_def id2_def empty_db_def

lemmas handler_defs =
  create_user_def create_market_def place_bet_def settle_market_def
  create_document_def find_one_def find_many_def update_one_def oid_def dict_get_def

lemma example_db_eq:
  "example_db =
     \<lparr> coll_user =
         [\<lparr> user.username = ''alice'', user.email = None, user.created_at = 1000,
            is_active = True, balance = 0 \<rparr>],
       coll_market =
         [\<lparr> market.game_type = ''cricket'', market.title = ''A vs B'',
            market.outcomes =
              [[(''key'', JStr ''A''), (''label'', JStr ''Team A''), (''odds'', JFloat (9 / 5))],
               [(''key'', JStr ''B''), (''label'', JStr ''Team B''), (''odds'', JFloat 2)]],
            market.status = ''open'', market.start_time = None, market.created_at = 1000,
            settled_outcome_key = None, settled_at = None \<rparr>],
       coll_bet =
         [\<lparr> bet.user_id = id0, bet.market_id = id0, bet.outcome_key = ''A'',
            bet.stake = 100, odds = 9 / 5, potential_payout = 180,
            bet.status = ''pending'', placed_at = 1000, updated_at = None \<rparr>,
          \<lparr> bet.user_id = id0, bet.market_id = id0, bet.outcome_key = ''B'',
            bet.stake = 50, odds = 2, potential_payout = 100,
            bet.status = ''pending'', placed_at = 1000, updated_at = None \<rparr>] \<rparr>"
  by (simp add: example_db_def example_defs handler_defs Let_def)

lemma settled_db_eq:
  "settled_db =
     \<lparr> coll_user =
         [\<lparr> user.username = ''alice'', user.email = None, user.created_at = 1000,
            is_active = True, balance = 0 \<rparr>],
       coll_market =
         [\<lparr> market.game_type = ''cricket'', market.title = ''A vs B'',
            market.outcomes =
              [[(''key'', JStr ''A''), (''label'', JStr ''Team A''), (''odds'', JFloat (9 / 5))],
               [(''key'', JStr ''B''), (''label'', JStr ''Team B''), (''odds'', JFloat 2)]],
            market.status = ''settled'', market.start_time = None, market.created_at = 1000,
            settled_outcome_key = Some ''A'', settled_at = Some 1000 \<rparr>],
       coll_bet =
         [\<lparr> bet.user_id = id0, bet.market_id = id0, bet.outcome_key = ''A'',
            bet.stake = 100, odds = 9 / 5, potential_payout = 180,
            bet.status = ''won'', placed_at = 1000, updated_at = Some 1001 \<rparr>,
          \<lparr> bet.user_id = id0, bet.market_id = id0, bet.outcome_key = ''B'',
            bet.stake = 50, odds = 2, potential_payout = 100,
            bet.status = ''lost'', placed_at = 1000, updated_at = Some 1002 \<rparr>] \<rparr>"
  by (simp add: settled_db_def example_db_eq example_defs handler_defs Let_def)

theorem settle_market_not_open_witness:
  "oid example_env id0 = Inr 0 \<and>
   (\<exists>m. find_one (coll_market settled_db) 0 = Some m \<and> market.status m \<noteq> ''open'') \<and>
   settle_market example_env example_clock settled_db id0 (settle_with ''B'')
     = (settled_db, Inl MarketNotOpen)"
proof -
  let ?m = "coll_market settled_db ! 0"
  have h1: "oid example_env id0 = Inr 0"
    by (simp add: oid_def example_env_def)
  have h2: "find_one (coll_market settled_db) 0 = Some ?m"
    by (simp add: find_one_def settled_db_eq)
  have h3: "market.status ?m \<noteq> ''open''"
    by (simp add: settled_db_eq)
  from settle_market_not_open [OF h1 h2 h3] h1 h2 h3 show ?thesis by blast
qed

theorem place_bet_not_open_witness:
  "oid example_env (PlaceBet.market_id (bet_on ''nobody'' 10)) = Inr 0 \<and>
   (\<exists>m. find_one (coll_market settled_db) 0 = Some m \<and> market.status m \<noteq> ''open'') \<and>
   \<not> matches_outcome (market.outcomes (coll_market settled_db ! 0)) ''nobody'' \<and>
   place_bet example_env example_clock settled_db (bet_on ''nobody'' 10)
     = (settled_db, Inl MarketNotOpen)"
proof -
  let ?m = "coll_market settled_db ! 0"
  have h1: "oid example_env (PlaceBet.market_id (bet_on ''nobody'' 10)) = Inr 0"
    by (simp add: oid_def example_env_def bet_on_def)
  have h2: "find_one (coll_market settled_db) 0 = Some ?m"
    by (simp add: find_one_def settled_db_eq)
  have h3: "market.status ?m \<noteq> ''open''"
    by (simp add: settled_db_eq)
  have h4: "\<not> matches_outcome (market.outcomes ?m) ''nobody''"
    by (simp add: settled_db_eq matches_outcome_def dict_get_def)
  from place_bet_not_open [OF h1 h2 h3] h1 h2 h3 h4 show ?thesis by blast
qed


subsection \<open>What each handler writes\<close>

lemma create_user_writes:
  "coll_market (fst (create_user E clk db p)) = coll_market db"
  "coll_bet (fst (create_user E clk db p)) = coll_bet db"
  by (simp_all add: create_user_def create_document_def)

lemma create_market_cases:
  "create_market E clk db p = (db, Inl InvalidGameType) \<or>
   create_market E clk db p = (db, Inl EmptyOutcomes) \<or>
   create_market E clk db p = (db, Inl IncompleteOutcome) \<or>
   create_market E clk db p =
     (db\<lparr>coll_market := coll_market db @
           [\<lparr> market.game_type = CreateMarket.game_type p,
              market.title = CreateMarket.title p,
              market.outcomes = CreateMarket.outcomes p,
              market.status = ''open'',
              market.start_time = CreateMarket.start_time p,
              market.created_at = clk 0,
              settled_outcome_key = None,
              settled_at = None \<rparr>]\<rparr>,
      Inr (Id (show_oid E (length (coll_market db)))))"
  by (simp add: create_market_def create_document_def)

lemma create_market_writes:
  "coll_bet (fst (create_market E clk db p)) = coll_bet db"
  "\<exists>ms. coll_market (fst (create_market E clk db p)) = coll_market db @ ms"
  using create_market_cases [of E clk db p] by auto

lemma place_bet_writes:
  "coll_market (fst (place_bet E clk db p)) = coll_market db"
  "\<exists>bs. coll_bet (fst (place_bet E clk db p)) = coll_bet db @ bs"
  by (simp_all add: place_bet_def create_document_def Let_def
        split: sum.splits option.splits)

lemma find_one_prefix:
  "find_one coll j = Some d \<Longrightarrow> find_one (coll @ rest) j = Some d"
  by (auto simp: find_one_def nth_append)

lemma settle_bets_nth:
  "j < length coll \<Longrightarrow>
   \<exists>s t. settle_bets clk n k bs coll ! j = (coll ! j)\<lparr>bet.status := s, updated_at := t\<rparr>"
proof (induction bs arbitrary: n coll)
  case Nil
  have "coll ! j = (coll ! j)\<lparr>bet.status := bet.status (coll ! j),
                               updated_at := updated_at (coll ! j)\<rparr>"
    by simp
  then show ?case by (metis settle_bets.simps(1))
next
  case (Cons p bs)
  obtain i c where p: "p = (i, c)" by (cases p)
  let ?f = "\<lambda>d. d\<lparr>bet.status := (if bet.outcome_key c = k then ''won'' else ''lost''),
                     updated_at := Some (clk n)\<rparr>"
  from Cons.prems have len: "j < length (update_one i ?f coll)"
    by (simp add: length_update_one)
  from Cons.IH [OF len, of "Suc n"] obtain s t where
    st: "settle_bets clk (Suc n) k bs (update_one i ?f coll) ! j
           = (update_one i ?f coll ! j)\<lparr>bet.status := s, updated_at := t\<rparr>"
    by blast
  have "(update_one i ?f coll ! j)\<lparr>bet.status := s, updated_at := t\<rparr>
          = (coll ! j)\<lparr>bet.status := s, updated_at := t\<rparr>"
    using Cons.prems by (simp add: nth_update_one)
  with st show ?case
    by (auto simp: p Let_def)
qed

lemma settle_market_closed:
  "(\<exists>e. settle_market E clk db mid p = (db, Inl e)) \<or>
   (\<exists>i m. oid E mid = Inr i \<and> find_one (coll_market db) i = Some m \<and>
          market.status m = ''open'')"
  by (auto simp: settle_market_def split: sum.splits option.splits)

lemma settle_market_bet:
  assumes "find_one (coll_bet db) j = Some b"
  shows "\<exists>s t. find_one (coll_bet (fst (settle_market E clk db mid p))) j
            = Some (b\<lparr>bet.status := s, updated_at := t\<rparr>)"
proof -
  from assms have j: "j < length (coll_bet db)" and b: "coll_bet db ! j = b"
    by (simp_all add: find_one_Some_iff)
  have same: "b = b\<lparr>bet.status := bet.status b, updated_at := updated_at b\<rparr>" by simp
  from settle_market_closed [of E clk db mid p] show ?thesis
  proof (elim disjE exE conjE)
    fix e assume "settle_market E clk db mid p = (db, Inl e)"
    with assms same show ?thesis by (metis fst_conv)
  next
    fix i m
    assume h: "oid E mid = Inr i" "find_one (coll_market db) i = Some m"
      "market.status m = ''open''"
    let ?coll = "settle_bets clk 1 (SettlePayload.settled_outcome_key p)
                   (find_many (coll_bet db) (\<lambda>b. bet.market_id b = mid)) (coll_bet db)"
    have "coll_bet (fst (settle_market E clk db mid p)) = ?coll"
      by (simp add: settle_market_open [OF h])
    moreover have "find_one ?coll j = Some (?coll ! j)"
      using j by (simp add: find_one_def length_settle_bets)
    moreover from settle_bets_nth [OF j] b
    have "\<exists>s t. ?coll ! j = b\<lparr>bet.status := s, updated_at := t\<rparr>"
      by metis
    ultimately show ?thesis by metis
  qed
qed

lemma settle_market_settled:
  assumes "find_one (coll_market db) i = Some m" and "market.status m = ''settled''"
  shows "find_one (coll_market (fst (settle_market E clk db mid p))) i = Some m"
proof -
  from settle_market_closed [of E clk db mid p] show ?thesis
  proof (elim disjE exE conjE)
    fix e assume "settle_market E clk db mid p = (db, Inl e)"
    with assms show ?thesis by simp
  next
    fix i' m'
    assume h: "oid E mid = Inr i'" "find_one (coll_market db) i' = Some m'"
      "market.status m' = ''open''"
    with assms have "i \<noteq> i'" by auto
    with assms(1) show ?thesis
      by (simp add: settle_market_open [OF h] find_one_update_one)
  qed
qed

lemma handle_settled:
  assumes "find_one (coll_market db) i = Some m" and "market.status m = ''settled''"
  shows "find_one (coll_market (fst (handle E clk db req))) i = Some m"
proof (cases req)
  case (ReqCreateUser p)
  with assms show ?thesis by (simp add: create_user_writes)
next
  case (ReqCreateMarket p)
  from create_market_writes(2) [of E clk db p] obtain ms where
    "coll_market (fst (create_market E clk db p)) = coll_market db @ ms" ..
  with assms ReqCreateMarket show ?thesis by (simp add: find_one_prefix)
next
  case (ReqPlaceBet p)
  with assms show ?thesis by (simp add: place_bet_writes)
next
  case (ReqSettleMarket mid p)
  with assms show ?thesis by (simp add: settle_market_settled)
qed

lemma run_settled:
  "find_one (coll_market db) i = Some m \<Longrightarrow> market.status m = ''settled'' \<Longrightarrow>
   find_one (coll_market (run E db reqs)) i = Some m"
proof (induction reqs arbitrary: db)
  case Nil
  then show ?case by simp
next
  case (Cons cr reqs)
  obtain clk req where cr: "cr = (clk, req)" by (cases cr)
  from Cons.prems have "find_one (coll_market (fst (handle E clk db req))) i = Some m"
    by (rule handle_settled)
  from Cons.IH [OF this Cons.prems(2)] show ?case by (simp add: cr)
qed

text \<open>C5. Market status is monotonic. A market that \<^verbatim>\<open>create_market\<close> creates is stored
  with status "open" under the id returned. A market whose status is "settled" is found
  under the same id with status "settled" after any request (user creation, market
  creation, bet placement, settlement), and so after any sequence of requests.\<close>

theorem market_status_monotonic:
  "(\<forall>db' r. create_market E clk db p = (db', Inr r) \<longrightarrow>
      (\<exists>m. r = Id (show_oid E (length (coll_market db))) \<and>
           find_one (coll_market db') (length (coll_market db)) = Some m \<and>
           market.status m = ''open'')) \<and>
   (\<forall>i m. find_one (coll_market db) i = Some m \<and> market.status m = ''settled'' \<longrightarrow>
      (\<exists>m'. find_one (coll_market (fst (handle E clk db req))) i = Some m' \<and>
            market.status m' = ''settled'') \<and>
      (\<exists>m'. find_one (coll_market (run E db reqs)) i = Some m' \<and>
            market.status m' = ''settled''))"
proof (intro conjI allI impI)
  fix db' r
  assume "create_market E clk db p = (db', Inr r)"
  with create_market_cases [of E clk db p]
  show "\<exists>m. r = Id (show_oid E (length (coll_market db))) \<and>
           find_one (coll_market db') (length (coll_market db)) = Some m \<and>
           market.status m = ''open''"
    by (auto simp: find_one_append)
next
  fix i m
  assume "find_one (coll_market db) i = Some m \<and> market.status m = ''settled''"
  then show "\<exists>m'. find_one (coll_market (fst (handle E clk db req))) i = Some m' \<and>
            market.status m' = ''settled''"
    by (auto simp: handle_settled)
next
  fix i m
  assume "find_one (coll_market db) i = Some m \<and> market.status m = ''settled''"
  then show "\<exists>m'. find_one (coll_market (run E db reqs)) i = Some m' \<and>
            market.status m' = ''settled''"
    by (auto simp: run_settled)
qed


theorem market_status_monotonic_witness:
  "(\<exists>db' r. create_market example_env example_clock settled_db a_vs_b = (db', Inr r) \<and>
      (\<exists>m. find_one (coll_market db') 1 = Some m \<and> market.status m = ''open'')) \<and>
   (\<exists>m. find_one (coll_market settled_db) 0 = Some m \<and> market.status m = ''settled'') \<and>
   (\<exists>m'. find_one (coll_market (fst (handle example_env example_clock settled_db
              (ReqSettleMarket id0 (settle_with ''B''))))) 0 = Some m' \<and>
         market.status m' = ''settled'') \<and>
   (\<exists>m'. find_one (coll_market (run example_env settled_db
              [(example_clock, ReqSettleMarket id0 (settle_with ''B'')),
               (example_clock, ReqPlaceBet (bet_on ''A'' 1))])) 0 = Some m' \<and>
         market.status m' = ''settled'')"
proof -
  let ?req = "ReqSettleMarket id0 (settle_with ''B'') :: rat request"
  let ?reqs = "[(example_clock, ?req), (example_clock, ReqPlaceBet (bet_on ''A'' 1))]"
  let ?m = "coll_market settled_db ! 0"
  have len: "length (coll_market settled_db) = 1"
    by (simp add: settled_db_eq)
  have h1: "\<exists>db'. create_market example_env example_clock settled_db a_vs_b = (db', Inr (Id id1))"
    by (simp add: create_market_def create_document_def a_vs_b_def example_env_def len)
  have h2: "find_one (coll_market settled_db) 0 = Some ?m \<and> market.status ?m = ''settled''"
    by (simp add: find_one_def settled_db_eq)
  from market_status_monotonic [of example_env example_clock settled_db a_vs_b ?req ?reqs]
    h1 h2 len
  show ?thesis by (metis One_nat_def)
qed

subsection \<open>The terms of a bet\<close>

lemma py_float_odds_same:
  "py_float E (dict_get oc k d) = Inr x \<Longrightarrow> py_float E (dict_get oc k JNull) = Inr y \<Longrightarrow> x = y"
  by (cases "map_of oc k") (simp_all add: dict_get_def)

lemma place_bet_success:
  assumes "place_bet E clk db p = (db', Inr r)"
  shows "\<exists>i m oc x.
     oid E (PlaceBet.market_id p) = Inr i \<and>
     find_one (coll_market db) i = Some m \<and>
     market.status m = ''open'' \<and>
     find (\<lambda>oc. dict_get oc ''key'' JNull = JStr (PlaceBet.outcome_key p)) (market.outcomes m)
       = Some oc \<and>
     py_float E (dict_get oc ''odds'' JNull) = Inr x \<and>
     r = Id (show_oid E (length (coll_bet db))) \<and>
     db' = db\<lparr>coll_bet := coll_bet db @
             [\<lparr> bet.user_id = PlaceBet.user_id p,
                bet.market_id = PlaceBet.market_id p,
                bet.outcome_key = PlaceBet.outcome_key p,
                bet.stake = PlaceBet.stake p,
                odds = x,
                potential_payout = round2 E (fmul E (PlaceBet.stake p) x),
                bet.status = ''pending'',
                placed_at = clk 0,
                updated_at = None \<rparr>]\<rparr>"
  using assms
  by (auto simp: place_bet_def create_document_def Let_def
           split: sum.splits option.splits if_splits dest: py_float_odds_same)

lemma handle_bet:
  assumes "find_one (coll_bet db) j = Some b"
  shows "\<exists>s t. find_one (coll_bet (fst (handle E clk db req))) j
            = Some (b\<lparr>bet.status := s, updated_at := t\<rparr>)"
proof -
  have same: "b = b\<lparr>bet.status := bet.status b, updated_at := updated_at b\<rparr>" by simp
  show ?thesis
  proof (cases req)
    case (ReqCreateUser p)
    with assms same show ?thesis by (metis create_user_writes(2) handle.simps(1))
  next
    case (ReqCreateMarket p)
    with assms same show ?thesis by (metis create_market_writes(1) handle.simps(2))
  next
    case (ReqPlaceBet p)
    from place_bet_writes(2) [of E clk db p] obtain bs where
      "coll_bet (fst (place_bet E clk db p)) = coll_bet db @ bs" ..
    with assms have "find_one (coll_bet (fst (handle E clk db req))) j = Some b"
      by (simp add: ReqPlaceBet find_one_prefix)
    with same show ?thesis by metis
  next
    case (ReqSettleMarket mid p)
    with settle_market_bet [OF assms] show ?thesis by simp
  qed
qed

lemma run_bet:
  "find_one (coll_bet db) j = Some b \<Longrightarrow>
   \<exists>s t. find_one (coll_bet (run E db reqs)) j = Some (b\<lparr>bet.status := s, updated_at := t\<rparr>)"
proof (induction reqs arbitrary: db b)
  case Nil
  have "b = b\<lparr>bet.status := bet.status b, updated_at := updated_at b\<rparr>" by simp
  with Nil show ?case by (metis run.simps(1))
next
  case (Cons cr reqs)
  obtain clk req where cr: "cr = (clk, req)" by (cases cr)
  from handle_bet [OF Cons.prems] obtain s t where
    "find_one (coll_bet (fst (handle E clk db req))) j = Some (b\<lparr>bet.status := s, updated_at := t\<rparr>)"
    by blast
  from Cons.IH [OF this] obtain s' t' where
    "find_one (coll_bet (run E (fst (handle E clk db req)) reqs)) j
       = Some (b\<lparr>bet.status := s, updated_at := t\<rparr>\<lparr>bet.status := s', updated_at := t'\<rparr>)"
    by blast
  then have "find_one (coll_bet (run E db (cr # reqs))) j
       = Some (b\<lparr>bet.status := s', updated_at := t'\<rparr>)"
    by (simp add: cr)
  then show ?case by blast
qed

text \<open>C6. A bet that \<^verbatim>\<open>place_bet\<close> stores has the stake of the request, as odds the
  float conversion of the odds of the outcome chosen in the market (the first outcome
  whose key is the requested one), and as \<^verbatim>\<open>potential_payout\<close> the product of its stake
  and its odds rounded to two decimals. A stored bet keeps its \<^verbatim>\<open>potential_payout\<close>, odds
  and stake through any request, settlement of its market included, and so through any
  sequence of requests.\<close>

theorem potential_payout_frozen:
  "(\<forall>db' r. place_bet E clk db p = (db', Inr r) \<longrightarrow>
      (\<exists>i m oc b.
          oid E (PlaceBet.market_id p) = Inr i \<and>
          find_one (coll_market db) i = Some m \<and>
          find (\<lambda>oc. dict_get oc ''key'' JNull = JStr (PlaceBet.outcome_key p))
               (market.outcomes m) = Some oc \<and>
          find_one (coll_bet db') (length (coll_bet db)) = Some b \<and>
          bet.stake b = PlaceBet.stake p \<and>
          py_float E (dict_get oc ''odds'' JNull) = Inr (odds b) \<and>
          potential_payout b = round2 E (fmul E (bet.stake b) (odds b)))) \<and>
   (\<forall>j b. find_one (coll_bet db) j = Some b \<longrightarrow>
      (\<exists>b'. find_one (coll_bet (fst (handle E clk db req))) j = Some b' \<and>
            potential_payout b' = potential_payout b \<and> odds b' = odds b \<and>
            bet.stake b' = bet.stake b) \<and>
      (\<exists>b'. find_one (coll_bet (run E db reqs)) j = Some b' \<and>
            potential_payout b' = potential_payout b \<and> odds b' = odds b \<and>
            bet.stake b' = bet.stake b))"
proof (intro conjI allI impI)
  fix db' r
  assume "place_bet E clk db p = (db', Inr r)"
  from place_bet_success [OF this]
  show "\<exists>i m oc b.
          oid E (PlaceBet.market_id p) = Inr i \<and>
          find_one (coll_market db) i = Some m \<and>
          find (\<lambda>oc. dict_get oc ''key'' JNull = JStr (PlaceBet.outcome_key p))
               (market.outcomes m) = Some oc \<and>
          find_one (coll_bet db') (length (coll_bet db)) = Some b \<and>
          bet.stake b = PlaceBet.stake p \<and>
          py_float E (dict_get oc ''odds'' JNull) = Inr (odds b) \<and>
          potential_payout b = round2 E (fmul E (bet.stake b) (odds b))"
    by (auto simp: find_one_append)
next
  fix j b
  assume "find_one (coll_bet db) j = Some b"
  from handle_bet [OF this, of E clk req]
  show "\<exists>b'. find_one (coll_bet (fst (handle E clk db req))) j = Some b' \<and>
            potential_payout b' = potential_payout b \<and> odds b' = odds b \<and>
            bet.stake b' = bet.stake b"
    by auto
next
  fix j b
  assume "find_one (coll_bet db) j = Some b"
  from run_bet [OF this, of E reqs]
  show "\<exists>b'. find_one (coll_bet (run E db reqs)) j = Some b' \<and>
            potential_payout b' = potential_payout b \<and> odds b' = odds b \<and>
            bet.stake b' = bet.stake b"
    by auto
qed


theorem potential_payout_frozen_witness:
  "(\<exists>db' r. place_bet example_env example_clock example_db (bet_on ''A'' 100) = (db', Inr r) \<and>
      (\<exists>b. find_one (coll_bet db') 2 = Some b \<and>
           potential_payout b = round2 example_env (fmul example_env (bet.stake b) (odds b)))) \<and>
   (\<exists>b. find_one (coll_bet example_db) 0 = Some b \<and> potential_payout b = 180 \<and>
      (\<exists>b'. find_one (coll_bet (fst (handle example_env example_clock example_db
                 (ReqSettleMarket id0 (settle_with ''A''))))) 0 = Some b' \<and>
            potential_payout b' = 180))"
proof -
  let ?p = "bet_on ''A'' 100"
  let ?req = "ReqSettleMarket id0 (settle_with ''A'') :: rat request"
  let ?b = "coll_bet example_db ! 0"
  have "snd (place_bet example_env example_clock example_db ?p) = Inr (Id id2)"
    by (simp add: example_db_eq example_defs handler_defs Let_def)
  then have h1: "place_bet example_env example_clock example_db ?p
                   = (fst (place_bet example_env example_clock example_db ?p), Inr (Id id2))"
    by (metis prod.collapse)
  have len: "length (coll_bet example_db) = 2"
    by (simp add: example_db_eq)
  have h2: "find_one (coll_bet example_db) 0 = Some ?b"
    by (simp add: find_one_def example_db_eq)
  have h3: "potential_payout ?b = 180"
    by (simp add: example_db_eq)
  from potential_payout_frozen [of example_env example_clock example_db ?p ?req "[]"]
  have a: "\<exists>b. find_one (coll_bet (fst (place_bet example_env example_clock example_db ?p))) 2 = Some b \<and>
           potential_payout b = round2 example_env (fmul example_env (bet.stake b) (odds b))"
    and b: "\<exists>b'. find_one (coll_bet (fst (handle example_env example_clock example_db ?req))) 0 = Some b' \<and>
            potential_payout b' = potential_payout ?b"
    using h1 h2 len by metis+
  from a h1 b h2 h3 show ?thesis by metis
qed

subsection \<open>Creation of a market\<close>

lemma no_incomplete_outcome:
  "list_ex (\<lambda>oc. \<not> {''key'', ''label'', ''odds''} \<subseteq> fst ` set oc) ocs
     \<longleftrightarrow> \<not> list_all well_formed_outcome ocs"
  by (simp add: list_ex_iff list_all_iff well_formed_outcome_def)

text \<open>C7, as the code has it. For a creation payload with a valid \<^verbatim>\<open>game_type\<close> and a
  non-empty list of outcomes that each carry the keys key, label and odds, the market
  created has status "open" and its outcomes are the given list, in the given order.
  Creation does not look at the keys: they are unique within the market exactly when
  they are unique in the payload.\<close>

theorem create_market_preserves_outcomes:
  assumes "CreateMarket.game_type p \<in> {''cricket'', ''matka'', ''other''}"
    and "CreateMarket.outcomes p \<noteq> []"
    and "list_all well_formed_outcome (CreateMarket.outcomes p)"
  shows "\<exists>m. create_market E clk db p =
               (db\<lparr>coll_market := coll_market db @ [m]\<rparr>,
                Inr (Id (show_oid E (length (coll_market db))))) \<and>
             find_one (coll_market (fst (create_market E clk db p))) (length (coll_market db))
               = Some m \<and>
             market.status m = ''open'' \<and>
             market.outcomes m = CreateMarket.outcomes p \<and>
             (distinct (outcome_keys (market.outcomes m))
                \<longleftrightarrow> distinct (outcome_keys (CreateMarket.outcomes p)))"
proof -
  from assms have "\<not> list_ex (\<lambda>oc. \<not> {''key'', ''label'', ''odds''} \<subseteq> fst ` set oc)
                        (CreateMarket.outcomes p)"
    by (simp only: no_incomplete_outcome not_not)
  with assms(1,2) show ?thesis
    by (simp add: create_market_def create_document_def find_one_append)
qed

theorem create_market_preserves_outcomes_witness:
  "CreateMarket.game_type a_vs_b \<in> {''cricket'', ''matka'', ''other''} \<and>
   CreateMarket.outcomes a_vs_b \<noteq> [] \<and>
   list_all well_formed_outcome (CreateMarket.outcomes a_vs_b) \<and>
   (\<exists>m. find_one (coll_market (fst (create_market example_env example_clock one_user_db a_vs_b))) 0
           = Some m \<and>
        market.status m = ''open'' \<and>
        market.outcomes m = CreateMarket.outcomes a_vs_b \<and>
        distinct (outcome_keys (market.outcomes m)))"
proof -
  have h1: "CreateMarket.game_type a_vs_b \<in> {''cricket'', ''matka'', ''other''}"
    by (simp add: a_vs_b_def)
  have h2: "CreateMarket.outcomes a_vs_b \<noteq> []"
    by (simp add: a_vs_b_def)
  have h3: "list_all well_formed_outcome (CreateMarket.outcomes a_vs_b)"
    by (simp add: a_vs_b_def well_formed_outcome_def)
  have h4: "distinct (outcome_keys (CreateMarket.outcomes a_vs_b))"
    by (simp add: a_vs_b_def outcome_keys_def dict_get_def)
  have len: "length (coll_market one_user_db) = 0"
    by (simp add: one_user_db_def create_user_def create_document_def empty_db_def)
  from create_market_preserves_outcomes [OF h1 h2 h3, of example_env example_clock one_user_db]
    h1 h2 h3 h4 len
  show ?thesis by metis
qed

text \<open>C7 as stated fails: a payload with a valid \<^verbatim>\<open>game_type\<close> and two complete
  outcomes under the same key is accepted, and the market stored has the key twice.\<close>

theorem create_market_duplicate_keys:
  "CreateMarket.game_type same_key_twice \<in> {''cricket'', ''matka'', ''other''} \<and>
   CreateMarket.outcomes same_key_twice \<noteq> [] \<and>
   list_all well_formed_outcome (CreateMarket.outcomes same_key_twice) \<and>
   snd (create_market example_env example_clock empty_db same_key_twice) = Inr (Id id0) \<and>
   market.status (coll_market (fst (create_market example_env example_clock empty_db
                                      same_key_twice)) ! 0) = ''open'' \<and>
   \<not> distinct (outcome_keys (market.outcomes
        (coll_market (fst (create_market example_env example_clock empty_db same_key_twice)) ! 0)))"
  by (simp add: same_key_twice_def well_formed_outcome_def outcome_keys_def dict_get_def
        create_market_def create_document_def empty_db_def example_env_def)

text \<open>C8. The schema asks for odds above 1.0 (\<^verbatim>\<open>Outcome.odds: Field(..., gt=1.0)\<close>), but
  \<^verbatim>\<open>create_market\<close> only checks that the key is there: a payload whose outcome has odds
  one half is accepted and the market is stored with that outcome.\<close>

theorem create_market_accepts_low_odds:
  "create_market example_env example_clock one_user_db low_odds =
     (one_user_db\<lparr>coll_market :=
        [\<lparr> market.game_type = ''cricket'', market.title = ''A vs B'',
           market.outcomes =
             [[(''key'', JStr ''A''), (''label'', JStr ''Team A''), (''odds'', JFloat (1 / 2))]],
           market.status = ''open'', market.start_time = None, market.created_at = 1000,
           settled_outcome_key = None, settled_at = None \<rparr>]\<rparr>,
      Inr (Id id0))"
  by (simp add: low_odds_def one_user_db_def create_user_def create_market_def
        create_document_def empty_db_def example_env_def example_clock_def)

text \<open>C3. The schema asks for a positive stake (\<^verbatim>\<open>Bet.stake: Field(..., gt=0)\<close>), but
  \<^verbatim>\<open>place_bet\<close> never compares the stake: a bet with stake -5 on an open market is
  accepted and stored, with a negative payout.\<close>

theorem place_bet_accepts_negative_stake:
  "place_bet example_env example_clock example_db (bet_on ''A'' (- 5)) =
     (example_db\<lparr>coll_bet := coll_bet example_db @
        [\<lparr> bet.user_id = id0, bet.market_id = id0, bet.outcome_key = ''A'',
           bet.stake = - 5, odds = 9 / 5, potential_payout = - 9,
           bet.status = ''pending'', placed_at = 1000, updated_at = None \<rparr>]\<rparr>,
      Inr (Id id2))"
  by (simp add: example_db_eq example_defs handler_defs Let_def)

text \<open>C10. Creation checks that each outcome has the keys key, label and odds, not what
  their values are: a market whose outcome has odds \<^verbatim>\<open>null\<close> is accepted, and a bet on
  that outcome ends in the TypeError of \<^verbatim>\<open>float(None)\<close>, which is none of the errors of
  the service, with nothing written.\<close>

theorem non_numeric_odds_unhandled:
  "\<exists>db r. create_market example_env example_clock one_user_db null_odds = (db, Inr r) \<and>
      market.outcomes (coll_market db ! 0)
        = [[(''key'', JStr ''A''), (''label'', JStr ''Team A''), (''odds'', JNull)]] \<and>
      place_bet example_env example_clock db (bet_on ''A'' 10) = (db, Inl (Unhandled TypeError))"
  by (simp add: null_odds_def one_user_db_def example_defs handler_defs Let_def)


subsection \<open>Stored bets name an outcome of their market\<close>

lemma bet_refers_prefix: "bet_refers E ms b \<Longrightarrow> bet_refers E (ms @ rest) b"
  by (auto simp: bet_refers_def find_one_prefix split: sum.splits option.splits)

lemma bet_refers_fields:
  "bet_refers E ms (b\<lparr>bet.status := s, updated_at := t\<rparr>) = bet_refers E ms b"
  by (simp add: bet_refers_def split: sum.splits option.splits)

lemma bet_refers_update_one:
  assumes "bet_refers E ms b" and "\<And>m. market.outcomes (f m) = market.outcomes m"
  shows "bet_refers E (update_one i f ms) b"
  using assms
  by (auto simp: bet_refers_def find_one_update_one split: sum.splits option.splits)

lemma find_Some_matches:
  "find (\<lambda>oc. dict_get oc ''key'' JNull = JStr k) ocs = Some oc \<Longrightarrow> matches_outcome ocs k"
  by (induction ocs) (auto simp: matches_outcome_def split: if_splits)

lemma bets_refer_empty: "bets_refer E empty_db"
  by (simp add: bets_refer_def empty_db_def)

lemma bets_refer_create_market:
  assumes "bets_refer E db"
  shows "bets_refer E (fst (create_market E clk db p))"
proof -
  from create_market_writes(2) [of E clk db p] obtain ms where
    "coll_market (fst (create_market E clk db p)) = coll_market db @ ms" ..
  with assms show ?thesis
    by (auto simp: bets_refer_def list_all_iff create_market_writes(1) bet_refers_prefix)
qed

lemma bets_refer_place_bet:
  assumes "bets_refer E db"
  shows "bets_refer E (fst (place_bet E clk db p))"
proof (cases "\<exists>r. snd (place_bet E clk db p) = Inr r")
  case True
  then obtain r where "place_bet E clk db p = (fst (place_bet E clk db p), Inr r)"
    by (metis prod.collapse)
  from place_bet_success [OF this] assms show ?thesis
    by (auto simp: bets_refer_def bet_refers_def dest: find_Some_matches)
next
  case False
  then have "fst (place_bet E clk db p) = db"
    by (auto simp: place_bet_def create_document_def Let_def
             split: sum.splits option.splits if_splits)
  with assms show ?thesis by simp
qed

lemma bets_refer_settle_market:
  assumes "bets_refer E db"
  shows "bets_refer E (fst (settle_market E clk db mid p))"
proof -
  from settle_market_closed [of E clk db mid p] show ?thesis
  proof (elim disjE exE conjE)
    fix e assume "settle_market E clk db mid p = (db, Inl e)"
    with assms show ?thesis by simp
  next
    fix i m
    assume h: "oid E mid = Inr i" "find_one (coll_market db) i = Some m"
      "market.status m = ''open''"
    let ?f = "\<lambda>m. m\<lparr>market.status := ''settled'',
                      settled_outcome_key := Some (SettlePayload.settled_outcome_key p),
                      settled_at := Some (clk 0)\<rparr> :: 'a market"
    let ?ms = "update_one i ?f (coll_market db)"
    let ?bs = "settle_bets clk 1 (SettlePayload.settled_outcome_key p)
                 (find_many (coll_bet db) (\<lambda>b. bet.market_id b = mid)) (coll_bet db)"
    have ms: "coll_market (fst (settle_market E clk db mid p)) = ?ms"
      and bs: "coll_bet (fst (settle_market E clk db mid p)) = ?bs"
      by (simp_all add: settle_market_open [OF h])
    have "bet_refers E ?ms (?bs ! j)" if j: "j < length (coll_bet db)" for j
    proof -
      from assms j have "bet_refers E (coll_market db) (coll_bet db ! j)"
        by (simp add: bets_refer_def list_all_length)
      then have "bet_refers E ?ms (coll_bet db ! j)"
        by (rule bet_refers_update_one) simp
      moreover from settle_bets_nth [OF j] obtain s t where
        "?bs ! j = (coll_bet db ! j)\<lparr>bet.status := s, updated_at := t\<rparr>"
        by blast
      ultimately show ?thesis by (simp add: bet_refers_fields)
    qed
    then show ?thesis
      unfolding bets_refer_def ms bs by (simp add: list_all_length length_settle_bets)
  qed
qed

lemma bets_refer_handle:
  "bets_refer E db \<Longrightarrow> bets_refer E (fst (handle E clk db req))"
proof (cases req)
  case (ReqCreateUser p)
  assume "bets_refer E db"
  with ReqCreateUser show ?thesis by (simp add: bets_refer_def create_user_writes)
next
  case (ReqCreateMarket p)
  assume "bets_refer E db"
  with ReqCreateMarket show ?thesis by (simp add: bets_refer_create_market)
next
  case (ReqPlaceBet p)
  assume "bets_refer E db"
  with ReqPlaceBet show ?thesis by (simp add: bets_refer_place_bet)
next
  case (ReqSettleMarket mid p)
  assume "bets_refer E db"
  with ReqSettleMarket show ?thesis by (simp add: bets_refer_settle_market)
qed

lemma reachable_bets_refer: "reachable E db \<Longrightarrow> bets_refer E db"
  by (induction rule: reachable.induct) (simp_all add: bets_refer_empty bets_refer_handle)

lemma reachable_run: "reachable E db \<Longrightarrow> reachable E (run E db reqs)"
proof (induction reqs arbitrary: db)
  case Nil
  then show ?case by simp
next
  case (Cons cr reqs)
  obtain clk req where cr: "cr = (clk, req)" by (cases cr)
  from Cons.prems have "reachable E (fst (handle E clk db req))"
    by (rule reachable_handle)
  from Cons.IH [OF this] show ?case by (simp add: cr)
qed

lemma settle_market_lost:
  assumes "oid E mid = Inr i" and "find_one (coll_market db) i = Some m"
    and "market.status m = ''open''"
    and "find_one (coll_bet db) j = Some b" and "bet.market_id b = mid"
  shows "\<exists>b'. find_one (coll_bet (fst (settle_market E clk db mid p))) j = Some b' \<and>
     bet.status b' =
       (if bet.outcome_key b = SettlePayload.settled_outcome_key p then ''won'' else ''lost'')"
proof -
  let ?k = "SettlePayload.settled_outcome_key p"
  let ?bs = "find_many (coll_bet db) (\<lambda>b. bet.market_id b = mid)"
  let ?coll = "settle_bets clk 1 ?k ?bs (coll_bet db)"
  from assms(4) have j: "j < length (coll_bet db)" and b: "coll_bet db ! j = b"
    by (simp_all add: find_one_Some_iff)
  have "coll_bet (fst (settle_market E clk db mid p)) = ?coll"
    by (simp add: settle_market_open [OF assms(1-3)])
  moreover have "find_one ?coll j = Some (?coll ! j)"
    using j by (simp add: find_one_def length_settle_bets)
  moreover have "bet.status (?coll ! j) = (if bet.outcome_key b = ?k then ''won'' else ''lost'')"
  proof -
    from assms(5) j b have "(j, b) \<in> set ?bs" by (simp add: in_find_many)
    from settle_bets_hit [OF distinct_find_many this j, of clk 1 ?k]
    show ?thesis by auto
  qed
  ultimately show ?thesis by simp
qed

text \<open>In a store reached from the empty one by requests, settling an open market with
  a winning key that is the key of none of its outcomes succeeds, the market is stored
  as settled with that key, and every bet stored under the id string of the request
  has status "lost" afterwards: a stored bet names an outcome of its market, so none
  of them has the winning key.\<close>

lemma settle_unknown_key_same_string:
  assumes "reachable E db"
    and "oid E mid = Inr i" and "find_one (coll_market db) i = Some m"
    and "market.status m = ''open''"
    and "\<not> matches_outcome (market.outcomes m) (SettlePayload.settled_outcome_key p)"
  shows "\<exists>db' m'. settle_market E clk db mid p = (db', Inr StatusOk) \<and>
     find_one (coll_market db') i = Some m' \<and>
     market.status m' = ''settled'' \<and>
     settled_outcome_key m' = Some (SettlePayload.settled_outcome_key p) \<and>
     (\<forall>j b. find_one (coll_bet db) j = Some b \<and> bet.market_id b = mid \<longrightarrow>
        (\<exists>b'. find_one (coll_bet db') j = Some b' \<and> bet.status b' = ''lost''))"
proof -
  let ?k = "SettlePayload.settled_outcome_key p"
  let ?db' = "fst (settle_market E clk db mid p)"
  have res: "settle_market E clk db mid p = (?db', Inr StatusOk)"
    by (simp add: settle_market_open [OF assms(2-4)])
  have mkt: "\<exists>m'. find_one (coll_market ?db') i = Some m' \<and> market.status m' = ''settled'' \<and>
               settled_outcome_key m' = Some ?k"
    using assms(3) by (simp add: settle_market_open [OF assms(2-4)] find_one_update_one)
  have lost: "\<exists>b'. find_one (coll_bet ?db') j = Some b' \<and> bet.status b' = ''lost''"
    if fb: "find_one (coll_bet db) j = Some b" and mb: "bet.market_id b = mid" for j b
  proof -
    from fb have "b \<in> set (coll_bet db)"
      by (auto simp: find_one_Some_iff)
    with reachable_bets_refer [OF assms(1)] have "bet_refers E (coll_market db) b"
      by (simp add: bets_refer_def list_all_iff)
    with mb assms(2,3) have "matches_outcome (market.outcomes m) (bet.outcome_key b)"
      by (simp add: bet_refers_def)
    with assms(5) have "bet.outcome_key b \<noteq> ?k" by auto
    with settle_market_lost [OF assms(2-4) fb mb, of clk p] show ?thesis by simp
  qed
  from res mkt lost show ?thesis by blast
qed

subsection \<open>Bets stored under another spelling of the market's id\<close>

lemmas hex_defs =
  hex_env_def ida_def idA_def idb_def idB_def bet_under_def


lemma lower_case_db_eq:
  "lower_case_db =
     \<lparr> coll_user =
         [\<lparr> user.username = ''alice'', user.email = None, user.created_at = 1000,
            is_active = True, balance = 0 \<rparr>],
       coll_market =
         [\<lparr> market.game_type = ''cricket'', market.title = ''A vs B'',
            market.outcomes =
              [[(''key'', JStr ''A''), (''label'', JStr ''Team A''), (''odds'', JFloat (9 / 5))],
               [(''key'', JStr ''B''), (''label'', JStr ''Team B''), (''odds'', JFloat 2)]],
            market.status = ''open'', market.start_time = None, market.created_at = 1000,
            settled_outcome_key = None, settled_at = None \<rparr>],
       coll_bet =
         [\<lparr> bet.user_id = ida, bet.market_id = ida, bet.outcome_key = ''A'',
            bet.stake = 100, odds = 9 / 5, potential_payout = 180,
            bet.status = ''pending'', placed_at = 1000, updated_at = None \<rparr>,
          \<lparr> bet.user_id = ida, bet.market_id = ida, bet.outcome_key = ''B'',
            bet.stake = 50, odds = 2, potential_payout = 100,
            bet.status = ''pending'', placed_at = 1000, updated_at = None \<rparr>] \<rparr>"
  by (simp add: lower_case_db_def hex_defs example_defs handler_defs Let_def)

lemma upper_case_db_eq:
  "upper_case_db =
     \<lparr> coll_user =
         [\<lparr> user.username = ''alice'', user.email = None, user.created_at = 1000,
            is_active = True, balance = 0 \<rparr>],
       coll_market =
         [\<lparr> market.game_type = ''cricket'', market.title = ''A vs B'',
            market.outcomes =
              [[(''key'', JStr ''A''), (''label'', JStr ''Team A''), (''odds'', JFloat (9 / 5))],
               [(''key'', JStr ''B''), (''label'', JStr ''Team B''), (''odds'', JFloat 2)]],
            market.status = ''open'', market.start_time = None, market.created_at = 1000,
            settled_outcome_key = None, settled_at = None \<rparr>],
       coll_bet =
         [\<lparr> bet.user_id = ida, bet.market_id = idA, bet.outcome_key = ''A'',
            bet.stake = 100, odds = 9 / 5, potential_payout = 180,
            bet.status = ''pending'', placed_at = 1000, updated_at = None \<rparr>] \<rparr>"
  by (simp add: upper_case_db_def hex_defs example_defs handler_defs Let_def)

text \<open>C1. \<^verbatim>\<open>settle_market\<close> finds the market through \<^verbatim>\<open>ObjectId\<close>, which reads either
  spelling of an id, but selects the bets by the id string of the request, and
  \<^verbatim>\<open>place_bet\<close> stores the id string of its own request. The market has the id that
  creation returned, and two bets are stored under exactly that id, one of them on
  outcome A. Settling the market with winning key A under the upper-case spelling of
  the id succeeds and stores the market as settled, and both bets are still "pending":
  neither is "won", neither is "lost".\<close>

theorem settle_market_misses_lower_case_bets:
  "snd (create_market hex_env example_clock
          (run hex_env empty_db [(example_clock, ReqCreateUser alice)]) a_vs_b) = Inr (Id ida) \<and>
   oid hex_env idA = Inr 0 \<and>
   market.status (coll_market lower_case_db ! 0) = ''open'' \<and>
   map bet.market_id (coll_bet lower_case_db) = [ida, ida] \<and>
   map bet.outcome_key (coll_bet lower_case_db) = [''A'', ''B''] \<and>
   snd (settle_market hex_env example_clock lower_case_db idA (settle_with ''A''))
     = Inr StatusOk \<and>
   market.status (coll_market (fst (settle_market hex_env example_clock lower_case_db idA
                                      (settle_with ''A''))) ! 0) = ''settled'' \<and>
   map bet.status (coll_bet (fst (settle_market hex_env example_clock lower_case_db idA
                                    (settle_with ''A''))))
     = [''pending'', ''pending'']"
  by (simp add: lower_case_db_eq hex_defs example_defs handler_defs Let_def)

lemma reachable_upper_case_db: "reachable hex_env upper_case_db"
  unfolding upper_case_db_def by (rule reachable_run) (rule reachable_empty)

text \<open>C9. For the same reason a settlement with a winning key that is the key of no
  outcome does not reach every bet on the market. In a store reached by requests, a bet
  was placed on the market under the upper-case spelling of its id (\<^verbatim>\<open>place_bet\<close>
  resolved that spelling to the market and took the odds from it). Settling the market
  under the id that creation returned, with the key C of no outcome, succeeds and
  stores the market as settled with that key, and the bet is still "pending".\<close>

theorem settle_unknown_key_misses_upper_case_bet:
  "reachable hex_env upper_case_db \<and>
   oid hex_env ida = Inr 0 \<and>
   market.status (coll_market upper_case_db ! 0) = ''open'' \<and>
   \<not> matches_outcome (market.outcomes (coll_market upper_case_db ! 0)) ''C'' \<and>
   bet.market_id (coll_bet upper_case_db ! 0) = idA \<and>
   oid hex_env idA = Inr 0 \<and>
   snd (settle_market hex_env example_clock upper_case_db ida (settle_with ''C''))
     = Inr StatusOk \<and>
   market.status (coll_market (fst (settle_market hex_env example_clock upper_case_db ida
                                      (settle_with ''C''))) ! 0) = ''settled'' \<and>
   settled_outcome_key (coll_market (fst (settle_market hex_env example_clock upper_case_db ida
                                            (settle_with ''C''))) ! 0) = Some ''C'' \<and>
   map bet.status (coll_bet (fst (settle_market hex_env example_clock upper_case_db ida
                                    (settle_with ''C''))))
     = [''pending'']"
proof -
  have "oid hex_env ida = Inr 0 \<and>
   market.status (coll_market upper_case_db ! 0) = ''open'' \<and>
   \<not> matches_outcome (market.outcomes (coll_market upper_case_db ! 0)) ''C'' \<and>
   bet.market_id (coll_bet upper_case_db ! 0) = idA \<and>
   oid hex_env idA = Inr 0 \<and>
   snd (settle_market hex_env example_clock upper_case_db ida (settle_with ''C''))
     = Inr StatusOk \<and>
   market.status (coll_market (fst (settle_market hex_env example_clock upper_case_db ida
                                      (settle_with ''C''))) ! 0) = ''settled'' \<and>
   settled_outcome_key (coll_market (fst (settle_market hex_env example_clock upper_case_db ida
                                            (settle_with ''C''))) ! 0) = Some ''C'' \<and>
   map bet.status (coll_bet (fst (settle_market hex_env example_clock upper_case_db ida
                                    (settle_with ''C''))))
     = [''pending'']"
    by (simp add: upper_case_db_eq matches_outcome_def hex_defs example_defs handler_defs Let_def)
  with reachable_upper_case_db show ?thesis by simp
qed

end
